theory Spec2Isabelle
  imports Complex_Main
begin

section \<open>JavaScript numbers\<close>

text \<open>
  Every numeric field and local of \<^verbatim>\<open>gearMath.ts\<close> is a JavaScript \<^verbatim>\<open>number\<close>. The
  model keeps the special values of that type, because the code never rejects an input
  and lets them propagate: a finite value \<open>Fin x\<close> (with \<open>Fin 0\<close> the positive zero),
  the negative zero, the two infinities and NaN. Arithmetic on finite values is exact
  real arithmetic: rounding to 53 bits, overflow and underflow are abstracted away.
  The rules for the special values are those of ECMAScript (IEEE 754).
\<close>

datatype jsnum = Fin real | NegZero | PInf | NInf | NaN

fun signbit :: "jsnum \<Rightarrow> bool" where
  "signbit (Fin x) = (x < 0)"
| "signbit NegZero = True"
| "signbit PInf = False"
| "signbit NInf = True"
| "signbit NaN = False"

fun isZero :: "jsnum \<Rightarrow> bool" where
  "isZero (Fin x) = (x = 0)"
| "isZero NegZero = True"
| "isZero _ = False"

fun isInf :: "jsnum \<Rightarrow> bool" where
  "isInf PInf = True"
| "isInf NInf = True"
| "isInf _ = False"

fun val :: "jsnum \<Rightarrow> real" where
  "val (Fin x) = x"
| "val _ = 0"

definition zeroOf :: "bool \<Rightarrow> jsnum" where
  "zeroOf neg = (if neg then NegZero else Fin 0)"

definition infOf :: "bool \<Rightarrow> jsnum" where
  "infOf neg = (if neg then NInf else PInf)"

instantiation jsnum :: "{plus, minus, uminus, times, inverse, ord}"
begin

fun uminus_jsnum :: "jsnum \<Rightarrow> jsnum" where
  "uminus_jsnum (Fin x) = (if x = 0 then NegZero else Fin (- x))"
| "uminus_jsnum NegZero = Fin 0"
| "uminus_jsnum PInf = NInf"
| "uminus_jsnum NInf = PInf"
| "uminus_jsnum NaN = NaN"

fun plus_jsnum :: "jsnum \<Rightarrow> jsnum \<Rightarrow> jsnum" where
  "plus_jsnum NaN _ = NaN"
| "plus_jsnum _ NaN = NaN"
| "plus_jsnum PInf NInf = NaN"
| "plus_jsnum NInf PInf = NaN"
| "plus_jsnum PInf _ = PInf"
| "plus_jsnum _ PInf = PInf"
| "plus_jsnum NInf _ = NInf"
| "plus_jsnum _ NInf = NInf"
| "plus_jsnum NegZero NegZero = NegZero"
| "plus_jsnum a b = Fin (val a + val b)"

definition minus_jsnum :: "jsnum \<Rightarrow> jsnum \<Rightarrow> jsnum" where
  "minus_jsnum a b = a + (- b)"

definition times_jsnum :: "jsnum \<Rightarrow> jsnum \<Rightarrow> jsnum" where
  "times_jsnum a b =
     (if a = NaN \<or> b = NaN then NaN
      else if (isInf a \<and> isZero b) \<or> (isZero a \<and> isInf b) then NaN
      else if isInf a \<or> isInf b then infOf (signbit a \<noteq> signbit b)
      else if isZero a \<or> isZero b then zeroOf (signbit a \<noteq> signbit b)
      else Fin (val a * val b))"

definition divide_jsnum :: "jsnum \<Rightarrow> jsnum \<Rightarrow> jsnum" where
  "divide_jsnum a b =
     (if a = NaN \<or> b = NaN then NaN
      else if (isInf a \<and> isInf b) \<or> (isZero a \<and> isZero b) then NaN
      else if isInf a \<or> isZero b then infOf (signbit a \<noteq> signbit b)
      else if isZero a \<or> isInf b then zeroOf (signbit a \<noteq> signbit b)
      else Fin (val a / val b))"

definition inverse_jsnum :: "jsnum \<Rightarrow> jsnum" where
  "inverse_jsnum a = divide (Fin 1) (a::jsnum)"

fun less_eq_jsnum :: "jsnum \<Rightarrow> jsnum \<Rightarrow> bool" where
  "less_eq_jsnum NaN _ = False"
| "less_eq_jsnum _ NaN = False"
| "less_eq_jsnum NInf _ = True"
| "less_eq_jsnum _ PInf = True"
| "less_eq_jsnum PInf _ = False"
| "less_eq_jsnum _ NInf = False"
| "less_eq_jsnum a b = (val a \<le> val b)"

fun less_jsnum :: "jsnum \<Rightarrow> jsnum \<Rightarrow> bool" where
  "less_jsnum NaN _ = False"
| "less_jsnum _ NaN = False"
| "less_jsnum PInf _ = False"
| "less_jsnum _ NInf = False"
| "less_jsnum NInf _ = True"
| "less_jsnum _ PInf = True"
| "less_jsnum a b = (val a < val b)"

instance ..

end

text \<open>\<^verbatim>\<open>Math.round\<close>: nearest integer, ties towards \<open>+\<infinity>\<close>; a result of zero keeps the
  sign of the argument.\<close>

fun Math_round :: "jsnum \<Rightarrow> jsnum" where
  "Math_round (Fin x) =
     (if - (1/2) \<le> x \<and> x < 0 then NegZero else Fin (of_int \<lfloor>x + 1/2\<rfloor>))"
| "Math_round a = a"

text \<open>\<^verbatim>\<open>Math.ceil\<close>.\<close>

fun Math_ceil :: "jsnum \<Rightarrow> jsnum" where
  "Math_ceil (Fin x) = (if - 1 < x \<and> x < 0 then NegZero else Fin (of_int \<lceil>x\<rceil>))"
| "Math_ceil a = a"

text \<open>\<^verbatim>\<open>Math.sin\<close>: NaN at the infinities and at NaN.\<close>

fun Math_sin :: "jsnum \<Rightarrow> jsnum" where
  "Math_sin (Fin x) = Fin (sin x)"
| "Math_sin NegZero = NegZero"
| "Math_sin _ = NaN"

text \<open>\<^verbatim>\<open>Math.pow\<close>, case by case as in ECMAScript's \<^verbatim>\<open>Number::exponentiate\<close>.\<close>

definition oddInteger :: "jsnum \<Rightarrow> bool" where
  "oddInteger e = (case e of Fin y \<Rightarrow> y \<in> \<int> \<and> odd \<lfloor>y\<rfloor> | _ \<Rightarrow> False)"

definition Math_pow :: "jsnum \<Rightarrow> jsnum \<Rightarrow> jsnum" where
  "Math_pow b e =
     (if e = NaN then NaN
      else if isZero e then Fin 1
      else if b = NaN then NaN
      else if b = PInf then (if Fin 0 < e then PInf else Fin 0)
      else if b = NInf then
        (if Fin 0 < e then (if oddInteger e then NInf else PInf)
         else (if oddInteger e then NegZero else Fin 0))
      else if b = Fin 0 then (if Fin 0 < e then Fin 0 else PInf)
      else if b = NegZero then
        (if Fin 0 < e then (if oddInteger e then NegZero else Fin 0)
         else (if oddInteger e then NInf else PInf))
      else if e = PInf then
        (if \<bar>val b\<bar> > 1 then PInf else if \<bar>val b\<bar> = 1 then NaN else Fin 0)
      else if e = NInf then
        (if \<bar>val b\<bar> > 1 then Fin 0 else if \<bar>val b\<bar> = 1 then NaN else PInf)
      else if val b < 0 \<and> val e \<notin> \<int> then NaN
      else if val b < 0 then Fin (val b powi \<lfloor>val e\<rfloor>)
      else Fin (val b powr val e))"

text \<open>Truthiness of a number, and \<^verbatim>\<open>x || y\<close> where \<open>x\<close> is a number or \<^verbatim>\<open>undefined\<close>
  (the result of \<^verbatim>\<open>Array.prototype.find\<close>).\<close>

fun truthy :: "jsnum \<Rightarrow> bool" where
  "truthy (Fin x) = (x \<noteq> 0)"
| "truthy NegZero = False"
| "truthy NaN = False"
| "truthy _ = True"

fun js_or :: "jsnum option \<Rightarrow> jsnum \<Rightarrow> jsnum" where
  "js_or None y = y"
| "js_or (Some x) y = (if truthy x then x else y)"

text \<open>\<^verbatim>\<open>Number.isFinite\<close>: neither NaN nor an infinity.\<close>

fun isFinite :: "jsnum \<Rightarrow> bool" where
  "isFinite (Fin x) = True"
| "isFinite NegZero = True"
| "isFinite _ = False"

text \<open>The comparison \<^verbatim>\<open>x == y\<close> of two numbers: NaN is equal to nothing, itself included,
  and the two zeros are equal.\<close>

definition js_eq :: "jsnum \<Rightarrow> jsnum \<Rightarrow> bool" where
  "js_eq a b = (a \<noteq> NaN \<and> b \<noteq> NaN \<and> (a = b \<or> (isZero a \<and> isZero b)))"

section \<open>Data model (types.ts)\<close>

record GearParams =
  teeth :: jsnum
  module :: jsnum
  pressureAngle :: jsnum
  faceWidth :: jsnum
  rpm :: jsnum
  torque :: jsnum
  diameter :: jsnum

datatype Variability = Constant | Sine | Noise

record DesignRequirements =
  targetOutputTorque :: jsnum
  targetOutputRPM :: jsnum
  nominalInputRPM :: jsnum
  materialYieldStrength :: jsnum
  inputVariability :: Variability

record SimulationPoint =
  time :: jsnum
  inputTorque :: jsnum
  outputTorque :: jsnum
  inputRPM :: jsnum
  outputRPM :: jsnum
  stress :: jsnum

record DesignResult =
  pinion :: GearParams
  gear :: GearParams
  ratio :: jsnum
  centerDistance :: jsnum
  safetyFactor :: jsnum

section \<open>The design solver (gearMath.ts, calculateGearDesign)\<close>

definition calculateLewisFactor :: "jsnum \<Rightarrow> jsnum" where
  "calculateLewisFactor numTeeth = Fin 0.484 - (Fin 2.87 / numTeeth)"

text \<open>The locals of \<^verbatim>\<open>calculateGearDesign\<close>, one definition each, in the order of the
  source. The local \<^verbatim>\<open>ratio\<close> is named \<open>ratio0\<close> and the local \<^verbatim>\<open>safetyFactor\<close> is
  named \<open>designSafetyFactor\<close>, since the record fields own those names. The locals
  \<^verbatim>\<open>Y = calculateLewisFactor(pinionTeeth)\<close> and \<^verbatim>\<open>k = 10\<close> are written out where
  \<open>mCubed\<close> uses them.

  Since finite arithmetic is exact here, a finite intermediate value such as
  \<open>pinionTeeth * ratio0 req\<close> or \<open>moduleMm req\<close> can differ from the double the code
  computes by the rounding of each operation (and the code overflows to an infinity where
  the model stays finite). Next to a tie of \<^verbatim>\<open>Math.round\<close> or to an entry of the table of
  standard modules the discrete result can then differ as well. The general properties
  of the tooth count and of the selected module are therefore stated in terms of these
  intermediate values, not of the inputs; only the concrete evaluations, at inputs away
  from such ties, go through the arithmetic.\<close>

definition ratio0 :: "DesignRequirements \<Rightarrow> jsnum" where
  "ratio0 req = nominalInputRPM req / targetOutputRPM req"

definition pinionTeeth :: jsnum where
  "pinionTeeth = Fin 18"

definition gearTeeth :: "DesignRequirements \<Rightarrow> jsnum" where
  "gearTeeth req = Math_round (pinionTeeth * ratio0 req)"

definition actualRatio :: "DesignRequirements \<Rightarrow> jsnum" where
  "actualRatio req = gearTeeth req / pinionTeeth"

definition designSafetyFactor :: jsnum where
  "designSafetyFactor = Fin 2.0"

definition allowableStress :: "DesignRequirements \<Rightarrow> jsnum" where
  "allowableStress req = (materialYieldStrength req * Fin 1000000) / designSafetyFactor"

definition pinionTorque :: "DesignRequirements \<Rightarrow> jsnum" where
  "pinionTorque req = targetOutputTorque req / actualRatio req"

definition mCubed :: "DesignRequirements \<Rightarrow> jsnum" where
  "mCubed req =
     (Fin 2 * pinionTorque req) /
     (Fin 10 * pinionTeeth * calculateLewisFactor pinionTeeth * allowableStress req)"

definition moduleMeters :: "DesignRequirements \<Rightarrow> jsnum" where
  "moduleMeters req = Math_pow (mCubed req) (Fin 1 / Fin 3)"

definition moduleMm :: "DesignRequirements \<Rightarrow> jsnum" where
  "moduleMm req = moduleMeters req * Fin 1000"

definition standardModules :: "jsnum list" where
  "standardModules =
     [Fin 0.5, Fin 0.8, Fin 1, Fin 1.25, Fin 1.5, Fin 2, Fin 2.5, Fin 3,
      Fin 4, Fin 5, Fin 6, Fin 8, Fin 10, Fin 12, Fin 16, Fin 20]"

definition selectedModule :: "DesignRequirements \<Rightarrow> jsnum" where
  "selectedModule req =
     js_or (find (\<lambda>m. m \<ge> moduleMm req) standardModules) (Math_ceil (moduleMm req))"

definition pinionParams :: "DesignRequirements \<Rightarrow> GearParams" where
  "pinionParams req =
     \<lparr> teeth = pinionTeeth,
       module = selectedModule req,
       pressureAngle = Fin 20,
       faceWidth = selectedModule req * Fin 10,
       rpm = nominalInputRPM req,
       torque = pinionTorque req,
       diameter = pinionTeeth * selectedModule req \<rparr>"

definition gearParams :: "DesignRequirements \<Rightarrow> GearParams" where
  "gearParams req =
     \<lparr> teeth = gearTeeth req,
       module = selectedModule req,
       pressureAngle = Fin 20,
       faceWidth = selectedModule req * Fin 10,
       rpm = nominalInputRPM req / actualRatio req,
       torque = targetOutputTorque req,
       diameter = gearTeeth req * selectedModule req \<rparr>"

definition calculateGearDesign :: "DesignRequirements \<Rightarrow> DesignResult" where
  "calculateGearDesign req =
     \<lparr> pinion = pinionParams req,
       gear = gearParams req,
       ratio = actualRatio req,
       centerDistance = (diameter (pinionParams req) + diameter (gearParams req)) / Fin 2,
       safetyFactor = designSafetyFactor \<rparr>"

section \<open>The step simulator (gearMath.ts, simulateStep)\<close>

text \<open>\<^verbatim>\<open>Math.random()\<close> is the only effect of the function. Its result, a number
  \<open>U\<close> with \<open>0 \<le> U < 1\<close>, is a parameter of the model; it is read in the noise branch
  only, as in the source.\<close>

definition inputFactor :: "real \<Rightarrow> jsnum \<Rightarrow> DesignRequirements \<Rightarrow> jsnum" where
  "inputFactor U t req =
     (case inputVariability req of
        Sine \<Rightarrow> Fin 1 + Fin 0.3 * Math_sin (t * Fin 2)
      | Noise \<Rightarrow> Fin 1 + (Fin U - Fin 0.5) * Fin 0.4
      | Constant \<Rightarrow> Fin 1.0)"

definition stressPa :: "DesignResult \<Rightarrow> jsnum" where
  "stressPa design =
     (let currentOutputTorque = torque (gear design);
          currentInputTorque = currentOutputTorque / ratio design;
          Y = calculateLewisFactor (teeth (pinion design));
          pitchRadiusMeters = (diameter (pinion design) / Fin 2) / Fin 1000;
          faceWidthMeters = faceWidth (pinion design) / Fin 1000;
          moduleMeters = module (pinion design) / Fin 1000;
          tangentialForce = currentInputTorque / pitchRadiusMeters
      in tangentialForce / (faceWidthMeters * moduleMeters * Y))"

definition simulateStep ::
  "real \<Rightarrow> jsnum \<Rightarrow> DesignResult \<Rightarrow> DesignRequirements \<Rightarrow> SimulationPoint" where
  "simulateStep U t design req =
     (let currentInputRPM = rpm (pinion design) * inputFactor U t req;
          currentOutputRPM = currentInputRPM / ratio design;
          currentOutputTorque = torque (gear design);
          currentInputTorque = currentOutputTorque / ratio design
      in \<lparr> time = t,
           inputTorque = currentInputTorque,
           outputTorque = currentOutputTorque,
           inputRPM = currentInputRPM,
           outputRPM = currentOutputRPM,
           stress = stressPa design / Fin 1000000 \<rparr>)"

section \<open>Concrete requirements\<close>

text \<open>The initial requirements of \<^verbatim>\<open>App.tsx\<close>, which are also the example scenario of the
  specification, and variations of them.\<close>

definition exampleReq :: DesignRequirements where
  "exampleReq =
     \<lparr> targetOutputTorque = Fin 50, targetOutputRPM = Fin 120, nominalInputRPM = Fin 1200,
       materialYieldStrength = Fin 250, inputVariability = Constant \<rparr>"

definition negativeTorqueReq :: DesignRequirements where
  "negativeTorqueReq = exampleReq\<lparr>targetOutputTorque := Fin (- 50)\<rparr>"

definition heavyReq :: DesignRequirements where
  "heavyReq = exampleReq\<lparr>targetOutputTorque := Fin 1000000\<rparr>"

definition stepUpReq :: DesignRequirements where
  "stepUpReq = exampleReq\<lparr>targetOutputRPM := Fin 4000, nominalInputRPM := Fin 100\<rparr>"

definition reverseStepUpReq :: DesignRequirements where
  "reverseStepUpReq =
     exampleReq\<lparr>targetOutputRPM := Fin (- 4000), nominalInputRPM := Fin 100\<rparr>"

definition sineReq :: DesignRequirements where
  "sineReq = exampleReq\<lparr>inputVariability := Sine\<rparr>"

definition noiseReq :: DesignRequirements where
  "noiseReq = exampleReq\<lparr>inputVariability := Noise\<rparr>"

section \<open>Arithmetic on finite numbers\<close>

lemma Fin_plus: "Fin x + Fin y = Fin (x + y)"
  by simp

lemma Fin_minus: "Fin x - Fin y = Fin (x - y)"
  by (simp add: minus_jsnum_def)

lemma Fin_times:
  "Fin x * Fin y = (if x = 0 \<or> y = 0 then zeroOf ((x < 0) \<noteq> (y < 0)) else Fin (x * y))"
  by (simp add: times_jsnum_def)

lemma Fin_divide:
  "Fin x / Fin y =
     (if y = 0 then (if x = 0 then NaN else infOf (x < 0))
      else if x = 0 then zeroOf (y < 0) else Fin (x / y))"
  by (simp add: divide_jsnum_def)

lemma times_jsnum_commute: "(a::jsnum) * b = b * a"
proof -
  have "(signbit a \<noteq> signbit b) = (signbit b \<noteq> signbit a)" by blast
  then show ?thesis
    unfolding times_jsnum_def by (auto simp: mult.commute)
qed

lemma scale_finite:
  assumes "isFinite a" "0 < f"
  shows "isFinite (a * Fin f) \<and> val (a * Fin f) = val a * f"
  using assms by (cases a) (auto simp: times_jsnum_def zeroOf_def)

lemma within_fraction:
  fixes r f e :: real
  assumes "1 - e \<le> f" "f \<le> 1 + e"
  shows "\<bar>r * f - r\<bar> \<le> e * \<bar>r\<bar>"
proof -
  have "r * f - r = r * (f - 1)" by (simp add: algebra_simps)
  then have "\<bar>r * f - r\<bar> = \<bar>r\<bar> * \<bar>f - 1\<bar>" by (simp add: abs_mult)
  also have "\<dots> \<le> \<bar>r\<bar> * e"
    using assms by (intro mult_left_mono) auto
  finally show ?thesis by (simp add: mult.commute)
qed

text \<open>The exponent \<^verbatim>\<open>1/3\<close> is not an integer, so \<^verbatim>\<open>Math.pow(x, 1/3)\<close> is NaN on the
  negative numbers and the cube root elsewhere.\<close>

lemma third_not_int: "(1/3::real) \<notin> \<int>"
proof
  assume "(1/3::real) \<in> \<int>"
  then obtain k :: int where "(1/3::real) = of_int k" by (auto elim: Ints_cases)
  then have "(1::real) = of_int (3 * k)" by simp
  then have "(1::int) = 3 * k" by (metis of_int_1 of_int_eq_iff)
  then show False by presburger
qed

lemma Math_pow_third:
  "Math_pow b (Fin 1 / Fin 3) =
     (case b of
        Fin x \<Rightarrow> if x = 0 then Fin 0 else if x < 0 then NaN else Fin (root 3 x)
      | NegZero \<Rightarrow> Fin 0 | PInf \<Rightarrow> PInf | NInf \<Rightarrow> PInf | NaN \<Rightarrow> NaN)"
  by (cases b)
     (simp_all add: Math_pow_def Fin_divide oddInteger_def third_not_int root_powr_inverse)

lemma root3_le_iff: "0 \<le> c \<Longrightarrow> (root 3 x * 1000 \<le> c) = (x \<le> (c / 1000) ^ 3)"
proof -
  assume c: "0 \<le> c"
  have "(root 3 x * 1000 \<le> c) = (root 3 x \<le> c / 1000)" by (simp add: field_simps)
  also have "\<dots> = (root 3 x \<le> root 3 ((c / 1000) ^ 3))"
    using c by (simp add: real_root_power_cancel)
  also have "\<dots> = (x \<le> (c / 1000) ^ 3)" by simp
  finally show ?thesis .
qed

section \<open>The table of standard modules\<close>

lemma standardModules_range:
  "m \<in> set standardModules \<Longrightarrow> \<exists>y. m = Fin y \<and> 0 < y \<and> y \<le> 20"
  by (auto simp: standardModules_def)

lemma standardModules_truthy: "m \<in> set standardModules \<Longrightarrow> truthy m"
  by (auto dest: standardModules_range)

lemma last_standardModule: "Fin 20 \<in> set standardModules"
  by (simp add: standardModules_def)

lemma jsnum_trichotomy: "raw = NaN \<or> Fin 20 < raw \<or> raw \<le> Fin 20"
  by (cases raw) auto

lemma find_above_table:
  assumes "Fin 20 < raw"
  shows "find (\<lambda>m. m \<ge> raw) standardModules = None"
proof -
  have "\<not> raw \<le> m" if "m \<in> set standardModules" for m
  proof -
    from that obtain y where "m = Fin y" "y \<le> 20" by (auto dest: standardModules_range)
    with assms show ?thesis by (cases raw) auto
  qed
  then show ?thesis by (simp add: find_None_iff)
qed

lemma find_within_table:
  assumes "raw \<le> Fin 20"
  obtains m where "find (\<lambda>m. m \<ge> raw) standardModules = Some m"
proof (cases "find (\<lambda>m. m \<ge> raw) standardModules")
  case None
  with last_standardModule assms show ?thesis by (auto simp: find_None_iff)
next
  case (Some m)
  then show ?thesis using that by blast
qed

section \<open>The example scenario, step by step\<close>

lemma lewis_pinion: "calculateLewisFactor (Fin 18) = Fin (2921/9000)"
  by (simp add: calculateLewisFactor_def Fin_divide Fin_minus)

lemma gearTeeth_example: "gearTeeth exampleReq = Fin 180"
  by (simp add: gearTeeth_def ratio0_def pinionTeeth_def exampleReq_def Fin_times Fin_divide)

lemma actualRatio_example: "actualRatio exampleReq = Fin 10"
  by (simp add: actualRatio_def gearTeeth_example pinionTeeth_def Fin_divide)

lemma pinionTorque_example: "pinionTorque exampleReq = Fin 5"
  by (simp add: pinionTorque_def actualRatio_example) (simp add: exampleReq_def Fin_divide)

lemma allowableStress_example: "allowableStress exampleReq = Fin 125000000"
  by (simp add: allowableStress_def designSafetyFactor_def exampleReq_def Fin_times Fin_divide)

lemma mCubed_example: "mCubed exampleReq = Fin (1/730250000)"
  by (simp add: mCubed_def pinionTorque_example allowableStress_example lewis_pinion
      pinionTeeth_def Fin_times Fin_divide)

lemma moduleMm_example: "moduleMm exampleReq = Fin (root 3 (1/730250000) * 1000)"
  by (simp add: moduleMm_def moduleMeters_def mCubed_example Math_pow_third Fin_times)

lemma raw_example_bounds:
  "1 < root 3 (1/730250000) * 1000 \<and> root 3 (1/730250000) * 1000 \<le> 5/4"
proof -
  have "\<not> root 3 (1/730250000) * 1000 \<le> (1::real)"
    by (subst root3_le_iff) (simp_all add: power3_eq_cube)
  moreover have "root 3 (1/730250000) * 1000 \<le> (5/4::real)"
    by (subst root3_le_iff) (simp_all add: power3_eq_cube)
  ultimately show ?thesis by simp
qed

lemma selectedModule_example: "selectedModule exampleReq = Fin 1.25"
proof -
  let ?r = "root 3 (1/730250000) * 1000 :: real"
  from raw_example_bounds have "\<not> ?r \<le> 0.5" "\<not> ?r \<le> 0.8" "\<not> ?r \<le> 1" "?r \<le> 1.25"
    by simp_all
  then show ?thesis
    by (simp add: selectedModule_def moduleMm_example standardModules_def)
qed

lemma calculateGearDesign_example:
  "calculateGearDesign exampleReq =
     \<lparr> pinion = \<lparr> teeth = Fin 18, module = Fin 1.25, pressureAngle = Fin 20,
                  faceWidth = Fin 12.5, rpm = Fin 1200, torque = Fin 5, diameter = Fin 22.5 \<rparr>,
       gear = \<lparr> teeth = Fin 180, module = Fin 1.25, pressureAngle = Fin 20,
                faceWidth = Fin 12.5, rpm = Fin 120, torque = Fin 50, diameter = Fin 225 \<rparr>,
       ratio = Fin 10, centerDistance = Fin 123.75, safetyFactor = Fin 2 \<rparr>"
  by (simp add: calculateGearDesign_def pinionParams_def gearParams_def selectedModule_example
      gearTeeth_example actualRatio_example pinionTorque_example designSafetyFactor_def
      pinionTeeth_def Fin_times Fin_divide Fin_plus)
    (simp add: exampleReq_def Fin_divide)

section \<open>A negative torque and a very large torque\<close>

lemma mCubed_negativeTorque: "mCubed negativeTorqueReq = Fin (- (1/730250000))"
  by (simp add: mCubed_def pinionTorque_def actualRatio_def gearTeeth_def ratio0_def
      allowableStress_def designSafetyFactor_def lewis_pinion pinionTeeth_def
      negativeTorqueReq_def exampleReq_def Fin_times Fin_divide)

lemma moduleMm_negativeTorque: "moduleMm negativeTorqueReq = NaN"
  by (simp add: moduleMm_def moduleMeters_def mCubed_negativeTorque Math_pow_third
      times_jsnum_def)

lemma mCubed_heavy: "mCubed heavyReq = Fin (2/73025)"
  by (simp add: mCubed_def pinionTorque_def actualRatio_def gearTeeth_def ratio0_def
      allowableStress_def designSafetyFactor_def lewis_pinion pinionTeeth_def
      heavyReq_def exampleReq_def Fin_times Fin_divide)

lemma moduleMm_heavy: "moduleMm heavyReq = Fin (root 3 (2/73025) * 1000)"
  by (simp add: moduleMm_def moduleMeters_def mCubed_heavy Math_pow_third Fin_times)

lemma raw_heavy_bounds: "30 < root 3 (2/73025) * 1000 \<and> root 3 (2/73025) * 1000 \<le> 31"
proof -
  have "\<not> root 3 (2/73025) * 1000 \<le> (30::real)"
    by (subst root3_le_iff) (simp_all add: power3_eq_cube)
  moreover have "root 3 (2/73025) * 1000 \<le> (31::real)"
    by (subst root3_le_iff) (simp_all add: power3_eq_cube)
  ultimately show ?thesis by simp
qed

lemma ceil_heavy: "Math_ceil (moduleMm heavyReq) = Fin 31"
proof -
  have "\<lceil>root 3 (2/73025) * 1000 :: real\<rceil> = 31"
    using raw_heavy_bounds by (intro ceiling_unique) simp_all
  moreover have "\<not> root 3 (2/73025) * 1000 < (0::real)"
    using raw_heavy_bounds by simp
  ultimately show ?thesis by (simp add: moduleMm_heavy)
qed

section \<open>The forcing factors\<close>

lemma sine_factor:
  assumes "isFinite t"
  shows "Fin 1 + Fin 0.3 * Math_sin (t * Fin 2) = Fin (1 + 0.3 * sin (2 * val t))"
  using assms by (cases t) (auto simp: times_jsnum_def zeroOf_def mult.commute)

lemma noise_factor:
  "Fin 1 + (Fin U - Fin 0.5) * Fin 0.4 = Fin (1 + (U - 0.5) * 0.4)"
  by (auto simp: Fin_minus Fin_times zeroOf_def)

section \<open>Degenerate designs\<close>

lemma js_eq_same: "js_eq a a = (a \<noteq> NaN)"
  by (simp add: js_eq_def)

lemma moduleMm_NaN_iff:
  "(moduleMm req = NaN) =
     (mCubed req = NaN \<or> (isFinite (mCubed req) \<and> val (mCubed req) < 0))"
  by (cases "mCubed req")
     (auto simp: moduleMm_def moduleMeters_def Math_pow_third times_jsnum_def infOf_def
        zeroOf_def)

lemma product_example: "pinionTeeth * ratio0 exampleReq = Fin 180"
  by (simp add: ratio0_def pinionTeeth_def exampleReq_def Fin_times Fin_divide)

lemma design_stepUp:
  "gearTeeth stepUpReq = Fin 0 \<and> selectedModule stepUpReq = PInf"
proof -
  have g: "gearTeeth stepUpReq = Fin 0"
    by (simp add: gearTeeth_def ratio0_def pinionTeeth_def stepUpReq_def exampleReq_def
        Fin_times Fin_divide)
  have m: "mCubed stepUpReq = PInf"
    by (simp add: mCubed_def pinionTorque_def actualRatio_def g allowableStress_def
        designSafetyFactor_def lewis_pinion pinionTeeth_def Fin_times Fin_divide
        zeroOf_def infOf_def)
      (simp add: stepUpReq_def exampleReq_def Fin_times Fin_divide infOf_def
        times_jsnum_def divide_jsnum_def)
  have "moduleMm stepUpReq = PInf"
    by (simp add: moduleMm_def moduleMeters_def m Math_pow_third times_jsnum_def infOf_def)
  then have "selectedModule stepUpReq = PInf"
    by (simp add: selectedModule_def standardModules_def)
  with g show ?thesis by simp
qed

lemma mCubed_reverseStepUp: "mCubed reverseStepUpReq = NInf"
proof -
  have g: "gearTeeth reverseStepUpReq = NegZero"
    by (simp add: gearTeeth_def ratio0_def pinionTeeth_def reverseStepUpReq_def exampleReq_def
        Fin_times Fin_divide)
  show ?thesis
    by (simp add: mCubed_def pinionTorque_def actualRatio_def g allowableStress_def
        designSafetyFactor_def lewis_pinion pinionTeeth_def Fin_times Fin_divide
        zeroOf_def infOf_def)
      (simp add: reverseStepUpReq_def exampleReq_def Fin_times Fin_divide infOf_def
        zeroOf_def times_jsnum_def divide_jsnum_def)
qed

section \<open>Properties of the design solver\<close>

text \<open>
  C1, as the code has it. The raw module \<open>moduleMm req\<close> is NaN, above 20, or at most 20.
  When it is at most 20 the selected module is the first entry of the standard table
  that is \<open>\<ge>\<close> the raw module. When it is above 20 the selected module is \<^verbatim>\<open>Math.ceil\<close> of
  the raw module, which for a raw module of \<open>+\<infinity>\<close> is \<open>+\<infinity>\<close>. When it is NaN, no entry
  compares \<open>\<ge>\<close> with it and the selected module is NaN as well. The raw module is NaN
  exactly when \<open>mCubed\<close> is NaN or a finite negative number; when \<open>mCubed\<close> is
  \<open>-\<infinity>\<close>, the raw module and the selected module are \<open>+\<infinity>\<close>.
\<close>

theorem selectedModule_snap:
  "(moduleMm req = NaN \<or> Fin 20 < moduleMm req \<or> moduleMm req \<le> Fin 20) \<and>
   (moduleMm req = NaN \<longrightarrow> module (pinion (calculateGearDesign req)) = NaN) \<and>
   (Fin 20 < moduleMm req \<longrightarrow>
      module (pinion (calculateGearDesign req)) = Math_ceil (moduleMm req)) \<and>
   (moduleMm req \<le> Fin 20 \<longrightarrow>
      (\<exists>i<length standardModules.
         module (pinion (calculateGearDesign req)) = standardModules ! i \<and>
         moduleMm req \<le> standardModules ! i \<and>
         (\<forall>j<i. \<not> moduleMm req \<le> standardModules ! j))) \<and>
   (moduleMm req = PInf \<longrightarrow> module (pinion (calculateGearDesign req)) = PInf) \<and>
   (moduleMm req = NaN) =
     (mCubed req = NaN \<or> (isFinite (mCubed req) \<and> val (mCubed req) < 0)) \<and>
   (mCubed req = NInf \<longrightarrow>
      moduleMm req = PInf \<and> module (pinion (calculateGearDesign req)) = PInf)"
proof -
  have sel: "module (pinion (calculateGearDesign req)) = selectedModule req"
    by (simp add: calculateGearDesign_def pinionParams_def)
  have nan: "selectedModule req = NaN" if "moduleMm req = NaN"
    using that by (simp add: selectedModule_def find_None_iff [THEN iffD2])
  have above: "selectedModule req = Math_ceil (moduleMm req)" if "Fin 20 < moduleMm req"
    using that by (simp add: selectedModule_def find_above_table)
  have inf: "selectedModule req = PInf" if "moduleMm req = PInf"
    using above that by simp
  have ninf: "moduleMm req = PInf" if "mCubed req = NInf"
    using that
    by (simp add: moduleMm_def moduleMeters_def Math_pow_third times_jsnum_def infOf_def)
  have within: "\<exists>i<length standardModules.
         selectedModule req = standardModules ! i \<and>
         moduleMm req \<le> standardModules ! i \<and>
         (\<forall>j<i. \<not> moduleMm req \<le> standardModules ! j)" if "moduleMm req \<le> Fin 20"
  proof -
    from that obtain m where m: "find (\<lambda>m. m \<ge> moduleMm req) standardModules = Some m"
      by (rule find_within_table)
    then have "m \<in> set standardModules"
      by (auto simp: find_Some_iff)
    then have "truthy m" by (rule standardModules_truthy)
    with m have "selectedModule req = m" by (simp add: selectedModule_def)
    with m show ?thesis by (auto simp: find_Some_iff)
  qed
  show ?thesis
    unfolding sel
    using jsnum_trichotomy [of "moduleMm req"] nan above within inf ninf
      moduleMm_NaN_iff [of req]
    by blast
qed

text \<open>
  C1, the cases at concrete requirements: the example scenario (raw module about
  1.11 mm, entry 1.25), a target torque of 1000000 Nm (raw module about 30.1 mm, rounded
  up to 31), a target torque of -50 Nm (\<open>mCubed\<close> finite and negative, NaN), and a
  target speed of -4000 rpm for 100 rpm at the input (\<open>mCubed = -\<infinity>\<close>, whose
  \<^verbatim>\<open>Math.pow\<close> is \<open>+\<infinity>\<close>, so the module is \<open>+\<infinity>\<close> and not NaN).
\<close>

theorem selectedModule_snap_witness:
  "module (pinion (calculateGearDesign exampleReq)) = Fin 1.25 \<and>
   module (pinion (calculateGearDesign heavyReq)) = Fin 31 \<and>
   module (pinion (calculateGearDesign negativeTorqueReq)) = NaN \<and>
   mCubed reverseStepUpReq = NInf \<and> moduleMm reverseStepUpReq = PInf \<and>
   module (pinion (calculateGearDesign reverseStepUpReq)) = PInf"
proof -
  have a: "Fin 20 < moduleMm heavyReq"
    using raw_heavy_bounds by (simp add: moduleMm_heavy)
  have b: "moduleMm exampleReq \<le> Fin 20"
    using raw_example_bounds by (simp add: moduleMm_example)
  have c: "moduleMm reverseStepUpReq = PInf"
    by (simp add: moduleMm_def moduleMeters_def mCubed_reverseStepUp Math_pow_third
        times_jsnum_def infOf_def)
  from selectedModule_snap [of exampleReq] b
  obtain i where i: "i < length standardModules"
      "module (pinion (calculateGearDesign exampleReq)) = standardModules ! i"
      "moduleMm exampleReq \<le> standardModules ! i"
      "\<forall>j<i. \<not> moduleMm exampleReq \<le> standardModules ! j"
    by blast
  have "\<not> 3 < i"
    using i(4) raw_example_bounds by (auto simp: moduleMm_example standardModules_def)
  moreover have "\<not> i < 3"
  proof
    assume "i < 3"
    then consider "i = 0" | "i = 1" | "i = 2" by linarith
    then show False
      using i(3) raw_example_bounds
      by cases (simp_all add: moduleMm_example standardModules_def)
  qed
  ultimately have "i = 3" by simp
  then have "module (pinion (calculateGearDesign exampleReq)) = Fin 1.25"
    using i by (simp add: standardModules_def)
  then show ?thesis
    using selectedModule_snap [of heavyReq] selectedModule_snap [of negativeTorqueReq]
      selectedModule_snap [of reverseStepUpReq] a c
    by (simp add: ceil_heavy moduleMm_negativeTorque mCubed_reverseStepUp)
qed

text \<open>
  C1 as stated fails for a target torque of -50 Nm (all other fields as in the example
  scenario): \<open>mCubed\<close> is negative, \<^verbatim>\<open>Math.pow\<close> of a negative base with exponent
  \<^verbatim>\<open>1/3\<close> is NaN, so the raw module is NaN. It does not exceed 20, and yet the selected
  module, NaN, is no entry of the standard table.
\<close>

theorem selectedModule_not_in_table:
  "moduleMm negativeTorqueReq = NaN \<and>
   \<not> Fin 20 < moduleMm negativeTorqueReq \<and>
   module (pinion (calculateGearDesign negativeTorqueReq)) = NaN \<and>
   module (pinion (calculateGearDesign negativeTorqueReq)) \<notin> set standardModules"
  by (simp add: moduleMm_negativeTorque calculateGearDesign_def pinionParams_def
      selectedModule_def standardModules_def)

text \<open>
  C2: the example scenario. The solver returns 18 and 180 teeth, ratio 10 and a pinion
  torque of 5 Nm. The raw module is \<open>1000 \<times> (1/730250000)\<^sup>1\<^sup>/\<^sup>3\<close> mm, which lies
  between 1 and 1.25, so the selected module is 1.25 mm. The step at time 0 returns
  output torque 50, input torque 5, output speed 120, input speed 1200, and the Lewis
  stress of a 5 Nm torque on the pinion of this design, \<open>256000/2921\<close> (about 87.64) MPa.
  The random draw \<open>U\<close> is arbitrary: the constant mode does not read it.
\<close>

theorem example_scenario:
  "teeth (pinion (calculateGearDesign exampleReq)) = Fin 18 \<and>
   teeth (gear (calculateGearDesign exampleReq)) = Fin 180 \<and>
   ratio (calculateGearDesign exampleReq) = Fin 10 \<and>
   torque (pinion (calculateGearDesign exampleReq)) = Fin 5 \<and>
   moduleMm exampleReq = Fin (root 3 (1 / 730250000) * 1000) \<and>
   Fin 1 < moduleMm exampleReq \<and> moduleMm exampleReq \<le> Fin 1.25 \<and>
   module (pinion (calculateGearDesign exampleReq)) = Fin 1.25 \<and>
   outputTorque (simulateStep U (Fin 0) (calculateGearDesign exampleReq) exampleReq) = Fin 50 \<and>
   inputTorque (simulateStep U (Fin 0) (calculateGearDesign exampleReq) exampleReq) = Fin 5 \<and>
   outputRPM (simulateStep U (Fin 0) (calculateGearDesign exampleReq) exampleReq) = Fin 120 \<and>
   inputRPM (simulateStep U (Fin 0) (calculateGearDesign exampleReq) exampleReq) = Fin 1200 \<and>
   stress (simulateStep U (Fin 0) (calculateGearDesign exampleReq) exampleReq) =
     Fin ((5 / (22.5 / 2 / 1000)) /
          ((12.5 / 1000) * (1.25 / 1000) * (0.484 - 2.87 / 18)) / 1000000) \<and>
   stress (simulateStep U (Fin 0) (calculateGearDesign exampleReq) exampleReq) =
     Fin (256000 / 2921)"
proof -
  have "inputVariability exampleReq = Constant" by (simp add: exampleReq_def)
  then have step: "simulateStep U (Fin 0) (calculateGearDesign exampleReq) exampleReq =
      \<lparr> time = Fin 0, inputTorque = Fin 5, outputTorque = Fin 50, inputRPM = Fin 1200,
        outputRPM = Fin 120, stress = Fin (256000 / 2921) \<rparr>"
    by (simp add: simulateStep_def Let_def inputFactor_def stressPa_def
        calculateGearDesign_example lewis_pinion Fin_times Fin_divide)
  have raw: "Fin 1 < moduleMm exampleReq \<and> moduleMm exampleReq \<le> Fin 1.25"
    using raw_example_bounds by (simp add: moduleMm_example)
  show ?thesis
    unfolding step using raw by (simp add: calculateGearDesign_example moduleMm_example)
qed

text \<open>
  C3, as the code has it. For every requirement the gear's tooth count is
  \<^verbatim>\<open>Math.round\<close> of the product \<open>p = pinionTeeth * ratio0 req\<close>, that is of
  \<^verbatim>\<open>18 * (nominalInputRPM / targetOutputRPM)\<close> as computed. Whenever \<open>p\<close> is a finite
  number, the tooth count is finite, its value is the integer \<open>\<lfloor>p + 1/2\<rfloor>\<close>, and it is
  positive exactly when \<open>p \<ge> 0.5\<close>.
\<close>

theorem gearTeeth_integer:
  "teeth (gear (calculateGearDesign req)) = Math_round (pinionTeeth * ratio0 req) \<and>
   (isFinite (pinionTeeth * ratio0 req) \<longrightarrow>
      isFinite (teeth (gear (calculateGearDesign req))) \<and>
      val (teeth (gear (calculateGearDesign req))) =
        of_int \<lfloor>val (pinionTeeth * ratio0 req) + 1 / 2\<rfloor> \<and>
      (Fin 0 < teeth (gear (calculateGearDesign req))) =
        (Fin (1 / 2) \<le> pinionTeeth * ratio0 req))"
proof -
  have g: "teeth (gear (calculateGearDesign req)) = Math_round (pinionTeeth * ratio0 req)"
    by (simp add: calculateGearDesign_def gearParams_def gearTeeth_def)
  have fin: "isFinite (Math_round p) \<and> val (Math_round p) = of_int \<lfloor>val p + 1 / 2\<rfloor> \<and>
      (Fin 0 < Math_round p) = (Fin (1 / 2) \<le> p)" if "isFinite p" for p
  proof (cases p)
    case (Fin x)
    have fl: "\<lfloor>x + 1 / 2\<rfloor> = 0" if "- (1 / 2) \<le> x" "x < 0"
      using that by (intro floor_unique) simp_all
    have "(0 < \<lfloor>x + 1 / 2\<rfloor>) = (1 \<le> x + 1 / 2)"
      by (simp add: less_floor_iff [symmetric] floor_less_iff le_floor_iff)
    also have "\<dots> = (1 / 2 \<le> x)" by auto
    finally have pos: "(0 < \<lfloor>x + 1 / 2\<rfloor>) = (1 / 2 \<le> x)" .
    show ?thesis
      using fl pos by (auto simp: Fin simp del: of_int_floor_cancel)
  qed (use that in simp_all)
  show ?thesis unfolding g using fin by blast
qed

text \<open>C3 at the example scenario: 1200 rpm in, 120 rpm out, product 180, 180 teeth.\<close>

theorem gearTeeth_integer_witness:
  "pinionTeeth * ratio0 exampleReq = Fin 180 \<and>
   isFinite (pinionTeeth * ratio0 exampleReq) \<and>
   teeth (gear (calculateGearDesign exampleReq)) = Fin 180 \<and>
   Fin 0 < teeth (gear (calculateGearDesign exampleReq))"
  using gearTeeth_integer [of exampleReq]
  by (simp add: product_example)

text \<open>
  C3 as stated fails for a speed-increasing stage: with a nominal input of 100 rpm and a
  target output of 4000 rpm, \<open>18 \<times> 100 / 4000 = 0.45\<close> rounds to a gear of zero teeth.
\<close>

theorem gearTeeth_zero:
  "targetOutputRPM stepUpReq \<noteq> Fin 0 \<and> targetOutputRPM stepUpReq \<noteq> NegZero \<and>
   Fin 0 < nominalInputRPM stepUpReq \<and>
   teeth (gear (calculateGearDesign stepUpReq)) = Fin 0 \<and>
   \<not> Fin 0 < teeth (gear (calculateGearDesign stepUpReq))"
  by (simp add: calculateGearDesign_def gearParams_def gearTeeth_def ratio0_def pinionTeeth_def
      stepUpReq_def exampleReq_def Fin_times Fin_divide)

text \<open>
  C4, as the code has it. Every design returned by the solver has a pinion of 18 teeth.
  Its ratio is the number gear teeth over pinion teeth, its diameters are the numbers
  teeth times module and its face widths the numbers 10 times module, for both gears,
  and its center distance is the number half the sum of the two diameters. Each of
  these six fields compares \<^verbatim>\<open>==\<close> with its expression exactly when the field is not
  NaN.
\<close>

theorem design_wellformed:
  "js_eq (teeth (pinion (calculateGearDesign req))) (Fin 18) \<and>
   ratio (calculateGearDesign req) =
     teeth (gear (calculateGearDesign req)) / teeth (pinion (calculateGearDesign req)) \<and>
   diameter (pinion (calculateGearDesign req)) =
     teeth (pinion (calculateGearDesign req)) * module (pinion (calculateGearDesign req)) \<and>
   diameter (gear (calculateGearDesign req)) =
     teeth (gear (calculateGearDesign req)) * module (gear (calculateGearDesign req)) \<and>
   faceWidth (pinion (calculateGearDesign req)) =
     Fin 10 * module (pinion (calculateGearDesign req)) \<and>
   faceWidth (gear (calculateGearDesign req)) =
     Fin 10 * module (gear (calculateGearDesign req)) \<and>
   centerDistance (calculateGearDesign req) =
     (diameter (pinion (calculateGearDesign req)) + diameter (gear (calculateGearDesign req)))
       / Fin 2 \<and>
   js_eq (ratio (calculateGearDesign req))
     (teeth (gear (calculateGearDesign req)) / teeth (pinion (calculateGearDesign req))) =
     (ratio (calculateGearDesign req) \<noteq> NaN) \<and>
   js_eq (diameter (pinion (calculateGearDesign req)))
     (teeth (pinion (calculateGearDesign req)) * module (pinion (calculateGearDesign req))) =
     (diameter (pinion (calculateGearDesign req)) \<noteq> NaN) \<and>
   js_eq (diameter (gear (calculateGearDesign req)))
     (teeth (gear (calculateGearDesign req)) * module (gear (calculateGearDesign req))) =
     (diameter (gear (calculateGearDesign req)) \<noteq> NaN) \<and>
   js_eq (faceWidth (pinion (calculateGearDesign req)))
     (Fin 10 * module (pinion (calculateGearDesign req))) =
     (faceWidth (pinion (calculateGearDesign req)) \<noteq> NaN) \<and>
   js_eq (faceWidth (gear (calculateGearDesign req)))
     (Fin 10 * module (gear (calculateGearDesign req))) =
     (faceWidth (gear (calculateGearDesign req)) \<noteq> NaN) \<and>
   js_eq (centerDistance (calculateGearDesign req))
     ((diameter (pinion (calculateGearDesign req)) + diameter (gear (calculateGearDesign req)))
       / Fin 2) =
     (centerDistance (calculateGearDesign req) \<noteq> NaN)"
proof -
  have same: "ratio (calculateGearDesign req) =
     teeth (gear (calculateGearDesign req)) / teeth (pinion (calculateGearDesign req))"
    "diameter (pinion (calculateGearDesign req)) =
     teeth (pinion (calculateGearDesign req)) * module (pinion (calculateGearDesign req))"
    "diameter (gear (calculateGearDesign req)) =
     teeth (gear (calculateGearDesign req)) * module (gear (calculateGearDesign req))"
    "faceWidth (pinion (calculateGearDesign req)) =
     Fin 10 * module (pinion (calculateGearDesign req))"
    "faceWidth (gear (calculateGearDesign req)) =
     Fin 10 * module (gear (calculateGearDesign req))"
    "centerDistance (calculateGearDesign req) =
     (diameter (pinion (calculateGearDesign req)) + diameter (gear (calculateGearDesign req)))
       / Fin 2"
    by (simp_all add: calculateGearDesign_def pinionParams_def gearParams_def actualRatio_def
        pinionTeeth_def times_jsnum_commute [of _ "Fin 10"])
  have t: "js_eq (teeth (pinion (calculateGearDesign req))) (Fin 18)"
    by (simp add: calculateGearDesign_def pinionParams_def pinionTeeth_def js_eq_def)
  show ?thesis
    using t same js_eq_same by metis
qed

text \<open>C4 at the example scenario, where no field is NaN: the invariants hold as
  \<^verbatim>\<open>==\<close>.\<close>

theorem design_wellformed_witness:
  "ratio (calculateGearDesign exampleReq) \<noteq> NaN \<and>
   diameter (gear (calculateGearDesign exampleReq)) \<noteq> NaN \<and>
   centerDistance (calculateGearDesign exampleReq) \<noteq> NaN \<and>
   js_eq (ratio (calculateGearDesign exampleReq))
     (teeth (gear (calculateGearDesign exampleReq)) /
        teeth (pinion (calculateGearDesign exampleReq))) \<and>
   js_eq (diameter (gear (calculateGearDesign exampleReq)))
     (teeth (gear (calculateGearDesign exampleReq)) *
        module (gear (calculateGearDesign exampleReq))) \<and>
   js_eq (centerDistance (calculateGearDesign exampleReq))
     ((diameter (pinion (calculateGearDesign exampleReq)) +
       diameter (gear (calculateGearDesign exampleReq))) / Fin 2)"
proof -
  have "ratio (calculateGearDesign exampleReq) \<noteq> NaN"
    "diameter (gear (calculateGearDesign exampleReq)) \<noteq> NaN"
    "centerDistance (calculateGearDesign exampleReq) \<noteq> NaN"
    by (simp_all add: calculateGearDesign_example)
  with design_wellformed [of exampleReq] show ?thesis by blast
qed

text \<open>
  C4 as stated fails for 100 rpm at the input and a target of 4000 rpm (other fields as
  in the example scenario). The gear has 0 teeth, the pinion torque and with it the
  module are \<open>+\<infinity>\<close>, so the gear's diameter is \<open>0 \<times> \<infinity>\<close>, NaN, and so is the center
  distance; neither compares \<^verbatim>\<open>==\<close> with the expression it was computed from.
\<close>

theorem design_invariants_fail_at_NaN:
  "teeth (gear (calculateGearDesign stepUpReq)) = Fin 0 \<and>
   module (gear (calculateGearDesign stepUpReq)) = PInf \<and>
   diameter (gear (calculateGearDesign stepUpReq)) = NaN \<and>
   centerDistance (calculateGearDesign stepUpReq) = NaN \<and>
   \<not> js_eq (diameter (gear (calculateGearDesign stepUpReq)))
     (teeth (gear (calculateGearDesign stepUpReq)) *
        module (gear (calculateGearDesign stepUpReq))) \<and>
   \<not> js_eq (centerDistance (calculateGearDesign stepUpReq))
     ((diameter (pinion (calculateGearDesign stepUpReq)) +
       diameter (gear (calculateGearDesign stepUpReq))) / Fin 2)"
  by (simp add: calculateGearDesign_def gearParams_def pinionParams_def design_stepUp
      pinionTeeth_def times_jsnum_def divide_jsnum_def js_eq_def infOf_def)

text \<open>
  C6: the safety factor reported by the solver is the constant 2, and it is the divisor
  of the module calculation: the allowable stress is the yield strength times \<open>10\<^sup>6\<close>
  over this factor, \<open>mCubed\<close> has that allowable stress in its denominator, and the raw
  module is \<^verbatim>\<open>Math.pow(mCubed, 1/3) * 1000\<close>. The reported factor is the same for any two
  requirements, so it does not depend on the module that was selected.
\<close>

theorem safetyFactor_constant:
  "safetyFactor (calculateGearDesign req) = Fin 2 \<and>
   allowableStress req =
     (materialYieldStrength req * Fin 1000000) / safetyFactor (calculateGearDesign req) \<and>
   mCubed req =
     (Fin 2 * pinionTorque req) /
     (Fin 10 * pinionTeeth * calculateLewisFactor pinionTeeth *
       ((materialYieldStrength req * Fin 1000000) / safetyFactor (calculateGearDesign req))) \<and>
   moduleMm req = Math_pow (mCubed req) (Fin 1 / Fin 3) * Fin 1000 \<and>
   safetyFactor (calculateGearDesign req) = safetyFactor (calculateGearDesign req')"
  by (simp add: calculateGearDesign_def designSafetyFactor_def allowableStress_def mCubed_def
      moduleMm_def moduleMeters_def)

section \<open>Properties of the step simulator\<close>

text \<open>
  C5: for every time, design, requirements and random draw, the step returns the gear's
  torque as output torque and that torque divided by the design's ratio as input torque.
  Neither changes when the speed of the pinion, from which the instantaneous input speed
  is computed, is replaced by any other number.
\<close>

theorem step_torques:
  "outputTorque (simulateStep U t design req) = torque (gear design) \<and>
   inputTorque (simulateStep U t design req) = torque (gear design) / ratio design \<and>
   outputTorque (simulateStep U t (design\<lparr>pinion := (pinion design)\<lparr>rpm := r\<rparr>\<rparr>) req) =
     outputTorque (simulateStep U t design req) \<and>
   inputTorque (simulateStep U t (design\<lparr>pinion := (pinion design)\<lparr>rpm := r\<rparr>\<rparr>) req) =
     inputTorque (simulateStep U t design req)"
  by (simp add: simulateStep_def Let_def)

text \<open>
  C7: in constant mode, two steps on the same design at any two times (and with any two
  random draws) return the same input and output speed, input and output torque and
  stress; the time field is the time that was passed in.
\<close>

theorem constant_mode_time_invariant:
  assumes "inputVariability req = Constant"
  shows "inputRPM (simulateStep U1 t1 design req) = inputRPM (simulateStep U2 t2 design req) \<and>
    outputRPM (simulateStep U1 t1 design req) = outputRPM (simulateStep U2 t2 design req) \<and>
    inputTorque (simulateStep U1 t1 design req) = inputTorque (simulateStep U2 t2 design req) \<and>
    outputTorque (simulateStep U1 t1 design req) = outputTorque (simulateStep U2 t2 design req) \<and>
    stress (simulateStep U1 t1 design req) = stress (simulateStep U2 t2 design req) \<and>
    time (simulateStep U1 t1 design req) = t1 \<and> time (simulateStep U2 t2 design req) = t2"
  using assms by (simp add: simulateStep_def Let_def inputFactor_def)

text \<open>C7 at the example scenario, at times 0 and 1.\<close>

theorem constant_mode_time_invariant_witness:
  "inputVariability exampleReq = Constant \<and>
   inputRPM (simulateStep 0 (Fin 0) (calculateGearDesign exampleReq) exampleReq) =
     inputRPM (simulateStep 0 (Fin 1) (calculateGearDesign exampleReq) exampleReq) \<and>
   stress (simulateStep 0 (Fin 0) (calculateGearDesign exampleReq) exampleReq) =
     stress (simulateStep 0 (Fin 1) (calculateGearDesign exampleReq) exampleReq) \<and>
   time (simulateStep 0 (Fin 0) (calculateGearDesign exampleReq) exampleReq) = Fin 0 \<and>
   time (simulateStep 0 (Fin 1) (calculateGearDesign exampleReq) exampleReq) = Fin 1"
proof -
  have c: "inputVariability exampleReq = Constant" by (simp add: exampleReq_def)
  from constant_mode_time_invariant
    [OF c, of 0 "Fin 0" "calculateGearDesign exampleReq" 0 "Fin 1"] c
  show ?thesis by blast
qed

text \<open>
  C8: in sine mode the input speed is the pinion's speed times
  \<open>1 + 0.3 sin (2 time)\<close>. For a finite time it is the same \<open>\<pi>\<close> later, and for a finite
  time and a finite pinion speed it is a finite number within 30 percent of the pinion's
  speed.
\<close>

theorem sine_mode_inputRPM:
  assumes "inputVariability req = Sine"
  shows "inputRPM (simulateStep U t design req) =
      rpm (pinion design) * (Fin 1 + Fin 0.3 * Math_sin (Fin 2 * t)) \<and>
    (isFinite t \<longrightarrow>
      inputRPM (simulateStep U (Fin (val t + pi)) design req) =
      inputRPM (simulateStep U t design req)) \<and>
    (isFinite t \<and> isFinite (rpm (pinion design)) \<longrightarrow>
      isFinite (inputRPM (simulateStep U t design req)) \<and>
      \<bar>val (inputRPM (simulateStep U t design req)) - val (rpm (pinion design))\<bar>
        \<le> 0.3 * \<bar>val (rpm (pinion design))\<bar>)"
proof -
  have rpm_eq: "inputRPM (simulateStep U s design req) =
      rpm (pinion design) * (Fin 1 + Fin 0.3 * Math_sin (s * Fin 2))" for s
    using assms by (simp add: simulateStep_def Let_def inputFactor_def)
  have formula: "inputRPM (simulateStep U t design req) =
      rpm (pinion design) * (Fin 1 + Fin 0.3 * Math_sin (Fin 2 * t))"
    by (simp add: rpm_eq times_jsnum_commute [of t])
  have periodic: "inputRPM (simulateStep U (Fin (val t + pi)) design req) =
      inputRPM (simulateStep U t design req)" if "isFinite t"
  proof -
    have "sin (2 * (val t + pi)) = sin (2 * val t + 2 * pi)" by (simp add: algebra_simps)
    then have "sin (2 * (val t + pi)) = sin (2 * val t)" by simp
    then show ?thesis
      using that by (simp add: rpm_eq sine_factor)
  qed
  have bound: "isFinite (inputRPM (simulateStep U t design req)) \<and>
      \<bar>val (inputRPM (simulateStep U t design req)) - val (rpm (pinion design))\<bar>
        \<le> 0.3 * \<bar>val (rpm (pinion design))\<bar>"
    if t: "isFinite t" and r: "isFinite (rpm (pinion design))"
  proof -
    let ?f = "1 + 0.3 * sin (2 * val t)"
    have lo: "1 - 0.3 \<le> ?f" using sin_ge_minus_one [of "2 * val t"] by linarith
    have hi: "?f \<le> 1 + 0.3" using sin_le_one [of "2 * val t"] by linarith
    have "0 < ?f" using sin_ge_minus_one [of "2 * val t"] by linarith
    from scale_finite [OF r this]
    have fin: "isFinite (rpm (pinion design) * Fin ?f)"
      and v: "val (rpm (pinion design) * Fin ?f) = val (rpm (pinion design)) * ?f"
      by blast+
    have "\<bar>val (rpm (pinion design)) * ?f - val (rpm (pinion design))\<bar>
        \<le> 0.3 * \<bar>val (rpm (pinion design))\<bar>"
      by (rule within_fraction [OF lo hi])
    with fin show ?thesis
      unfolding rpm_eq sine_factor [OF t] v by blast
  qed
  show ?thesis using formula periodic bound by blast
qed

text \<open>
  C8 at the example scenario in sine mode, at time \<open>\<pi>/4\<close>, where the sine is 1: the
  input speed is \<open>1.3 \<times> 1200 = 1560\<close>, the same at time \<open>\<pi>/4 + \<pi>\<close>, and 360 away
  from the pinion's 1200.
\<close>

theorem sine_mode_inputRPM_witness:
  "inputVariability sineReq = Sine \<and> isFinite (Fin (pi / 4)) \<and>
   isFinite (rpm (pinion (calculateGearDesign sineReq))) \<and>
   inputRPM (simulateStep 0 (Fin (pi / 4)) (calculateGearDesign sineReq) sineReq) = Fin 1560 \<and>
   inputRPM (simulateStep 0 (Fin (pi / 4 + pi)) (calculateGearDesign sineReq) sineReq) =
     Fin 1560 \<and>
   \<bar>val (inputRPM (simulateStep 0 (Fin (pi / 4)) (calculateGearDesign sineReq) sineReq))
      - 1200\<bar> \<le> 0.3 * \<bar>1200 :: real\<bar>"
proof -
  have s: "inputVariability sineReq = Sine" by (simp add: sineReq_def)
  have r: "rpm (pinion (calculateGearDesign sineReq)) = Fin 1200"
    by (simp add: calculateGearDesign_def pinionParams_def sineReq_def exampleReq_def)
  have f: "Fin 1 + Fin 0.3 * Math_sin (Fin 2 * Fin (pi / 4)) = Fin 1.3"
    by (simp add: Fin_times Fin_plus)
  from sine_mode_inputRPM [OF s, of 0 "Fin (pi / 4)" "calculateGearDesign sineReq"]
  show ?thesis
    unfolding f by (simp add: r s Fin_times)
qed

text \<open>
  C9: in noise mode, for a random draw \<open>U\<close> with \<open>0 \<le> U < 1\<close>, the input speed is the
  pinion's speed times \<open>1 + (U - 0.5) \<times> 0.4\<close>; for a finite pinion speed it is a finite
  number within 20 percent of the pinion's speed.
\<close>

theorem noise_mode_inputRPM:
  assumes "inputVariability req = Noise" "0 \<le> U" "U < 1"
  shows "inputRPM (simulateStep U t design req) =
      rpm (pinion design) * (Fin 1 + (Fin U - Fin 0.5) * Fin 0.4) \<and>
    (isFinite (rpm (pinion design)) \<longrightarrow>
      isFinite (inputRPM (simulateStep U t design req)) \<and>
      \<bar>val (inputRPM (simulateStep U t design req)) - val (rpm (pinion design))\<bar>
        \<le> 0.2 * \<bar>val (rpm (pinion design))\<bar>)"
proof -
  have rpm_eq: "inputRPM (simulateStep U t design req) =
      rpm (pinion design) * (Fin 1 + (Fin U - Fin 0.5) * Fin 0.4)"
    using assms(1) by (simp add: simulateStep_def Let_def inputFactor_def)
  have bound: "isFinite (inputRPM (simulateStep U t design req)) \<and>
      \<bar>val (inputRPM (simulateStep U t design req)) - val (rpm (pinion design))\<bar>
        \<le> 0.2 * \<bar>val (rpm (pinion design))\<bar>"
    if r: "isFinite (rpm (pinion design))"
  proof -
    let ?f = "1 + (U - 0.5) * 0.4"
    have lo: "1 - 0.2 \<le> ?f"
      using assms(2) by (simp add: diff_divide_distrib algebra_simps)
    have hi: "?f \<le> 1 + 0.2"
      using assms(3) by (simp add: diff_divide_distrib algebra_simps)
    have "0 < ?f"
      using assms(2) by (simp add: diff_divide_distrib algebra_simps)
    from scale_finite [OF r this]
    have fin: "isFinite (rpm (pinion design) * Fin ?f)"
      and v: "val (rpm (pinion design) * Fin ?f) = val (rpm (pinion design)) * ?f"
      by blast+
    have "\<bar>val (rpm (pinion design)) * ?f - val (rpm (pinion design))\<bar>
        \<le> 0.2 * \<bar>val (rpm (pinion design))\<bar>"
      by (rule within_fraction [OF lo hi])
    with fin show ?thesis
      unfolding rpm_eq noise_factor v by blast
  qed
  show ?thesis using rpm_eq bound by blast
qed

text \<open>
  C9 at the example scenario in noise mode with the smallest draw, \<open>U = 0\<close>: the input
  speed is \<open>0.8 \<times> 1200 = 960\<close>, which is 240 away from the pinion's 1200.
\<close>

theorem noise_mode_inputRPM_witness:
  "inputVariability noiseReq = Noise \<and> (0::real) \<le> 0 \<and> (0::real) < 1 \<and>
   isFinite (rpm (pinion (calculateGearDesign noiseReq))) \<and>
   inputRPM (simulateStep 0 (Fin 0) (calculateGearDesign noiseReq) noiseReq) = Fin 960 \<and>
   \<bar>val (inputRPM (simulateStep 0 (Fin 0) (calculateGearDesign noiseReq) noiseReq))
      - 1200\<bar> \<le> 0.2 * \<bar>1200 :: real\<bar>"
proof -
  have s: "inputVariability noiseReq = Noise" by (simp add: noiseReq_def)
  have r: "rpm (pinion (calculateGearDesign noiseReq)) = Fin 1200"
    by (simp add: calculateGearDesign_def pinionParams_def noiseReq_def exampleReq_def)
  from noise_mode_inputRPM [OF s, of 0 "Fin 0" "calculateGearDesign noiseReq"]
  show ?thesis
    by (simp add: r s Fin_times Fin_minus)
qed

text \<open>
  C10: for a fixed design the stress returned by the step is the same for any two times,
  any two requirements (hence any two variability modes) and any two random draws. It is
  the Lewis stress of the input torque \<open>gear torque / ratio\<close> on the pinion's diameter,
  face width, module and tooth count, in MPa.
\<close>

theorem stress_independent_of_forcing:
  "stress (simulateStep U1 t1 design req1) = stress (simulateStep U2 t2 design req2) \<and>
   stress (simulateStep U1 t1 design req1) =
     ((torque (gear design) / ratio design) / ((diameter (pinion design) / Fin 2) / Fin 1000)) /
     ((faceWidth (pinion design) / Fin 1000) * (module (pinion design) / Fin 1000) *
        calculateLewisFactor (teeth (pinion design))) / Fin 1000000"
  by (simp add: simulateStep_def Let_def stressPa_def)

end
